theory Spec2Isabelle
  imports Complex_Main "HOL-Library.Sublist"
begin

section \<open>Budget recommender backend: the bundle loader and the predict handler\<close>

text \<open>
  A shallow embedding of \<^verbatim>\<open>backend/backend.py\<close>. The module loads a pickled
  bundle once, into three module globals (\<^verbatim>\<open>model\<close>, \<^verbatim>\<open>encoders\<close>,
  \<^verbatim>\<open>feature_order\<close>), and serves \<^verbatim>\<open>POST /predict\<close>.

  Python exceptions are values of the type \<open>error\<close>; the handler returns
  \<open>error + response\<close>. The one effect a caller can observe besides the response is the
  call of \<^verbatim>\<open>model.predict\<close>: the handler returns, next to its result, the list of the
  feature tables it handed to the model. The \<^verbatim>\<open>logger\<close> calls write text only and are
  left out. Python floats are carried through the handler unchanged, never computed with;
  they are values of type \<open>real\<close>. Python integers are unbounded: \<open>int\<close>.
\<close>

subsection \<open>Exceptions\<close>

datatype error =
    HTTPException int string   \<comment> \<open>\<^verbatim>\<open>HTTPException(status_code, detail)\<close>\<close>
  | KeyError "string list"     \<comment> \<open>a dict or a column index lacks these keys\<close>
  | ValueError                 \<comment> \<open>\<^verbatim>\<open>LabelEncoder.transform\<close> on an unseen label\<close>
  | AttributeError             \<comment> \<open>\<^verbatim>\<open>None.predict\<close>\<close>
  | IndexError                 \<comment> \<open>\<^verbatim>\<open>[0]\<close> of an empty prediction array\<close>
  | ModelError string          \<comment> \<open>whatever the estimator itself raises\<close>

text \<open>
  FastAPI answers an \<^verbatim>\<open>HTTPException\<close> with its own status code and any other
  exception that leaves the handler with status 500.
\<close>

fun status_code :: "error \<Rightarrow> int" where
  "status_code (HTTPException c d) = c"
| "status_code e = 500"

fun is_HTTPException :: "error \<Rightarrow> bool" where
  "is_HTTPException (HTTPException c d) = True"
| "is_HTTPException e = False"

subsection \<open>The feature table, the estimator and the encoders\<close>

datatype cell = CFloat real | CInt int

text \<open>
  A one-row \<^verbatim>\<open>DataFrame\<close>: its columns in order, each with the value of the only row.
\<close>

type_synonym frame = "(string \<times> cell) list"

definition columns :: "frame \<Rightarrow> string list" where
  "columns X = map fst X"

definition values_of :: "frame \<Rightarrow> cell list" where
  "values_of X = map snd X"

datatype label = IntLabel int | FloatLabel real

text \<open>
  \<^verbatim>\<open>model.predict(X)\<close> is the estimator's: it raises, or it returns the array of the
  predicted labels.
\<close>

type_synonym estimator = "frame \<Rightarrow> error + label list"

text \<open>
  \<^verbatim>\<open>encoder.transform([s])[0]\<close>: the code of a label the encoder was fitted on;
  scikit-learn raises \<^verbatim>\<open>ValueError\<close> on any other.
\<close>

type_synonym encoder = "string \<rightharpoonup> int"

definition transform :: "encoder \<Rightarrow> string \<Rightarrow> error + int" where
  "transform enc s = (case enc s of None \<Rightarrow> Inl ValueError | Some c \<Rightarrow> Inr c)"

text \<open>\<^verbatim>\<open>d[k]\<close> on a dict.\<close>

definition getitem :: "(string \<rightharpoonup> 'v) \<Rightarrow> string \<Rightarrow> error + 'v" where
  "getitem d k = (case d k of None \<Rightarrow> Inl (KeyError [k]) | Some v \<Rightarrow> Inr v)"

text \<open>\<^verbatim>\<open>int(y)\<close> on a predicted label: a float is truncated towards zero.\<close>

fun py_int :: "label \<Rightarrow> int" where
  "py_int (IntLabel i) = i"
| "py_int (FloatLabel r) = (if 0 \<le> r then \<lfloor>r\<rfloor> else \<lceil>r\<rceil>)"

subsection \<open>Loading the bundle\<close>

definition DEFAULT_FEATURE_ORDER :: "string list" where
  "DEFAULT_FEATURE_ORDER =
     [''income_x'', ''income_y'', ''expense_amount'',
      ''category_enc'', ''priority_enc'', ''cutoff_rate'',
      ''total_expenses'', ''expense_ratio'', ''risk_flag'']"

text \<open>
  What \<^verbatim>\<open>joblib.load\<close> returns, in the two shapes the module tells apart with
  \<^verbatim>\<open>isinstance(loaded, dict)\<close>. A dict is read at three keys only; each field below is
  what \<^verbatim>\<open>loaded.get(key)\<close> finds, \<open>None\<close> for a key that is absent. The shape of the
  values is the one the module's header comment documents: an estimator, a dict of label
  encoders by field name, a list of column names.
\<close>

record bundle_dict =
  get_model :: "estimator option"
  get_encoders :: "(string \<rightharpoonup> encoder) option"
  get_feature_order :: "string list option"

datatype loaded = Dict bundle_dict | Estimator estimator

text \<open>The three module globals after the module body has run.\<close>

record model_bundle =
  model :: "estimator option"
  encoders :: "(string \<rightharpoonup> encoder) option"
  feature_order :: "string list"

fun load_bundle :: "loaded \<Rightarrow> model_bundle" where
  "load_bundle (Dict d) =
     \<lparr>model = get_model d,
      encoders = get_encoders d,
      feature_order =
        (case get_feature_order d of None \<Rightarrow> DEFAULT_FEATURE_ORDER | Some fo \<Rightarrow> fo)\<rparr>"
| "load_bundle (Estimator m) =
     \<lparr>model = Some m, encoders = None, feature_order = DEFAULT_FEATURE_ORDER\<rparr>"

subsection \<open>The request and the response\<close>

record ExpenseInput =
  income_x :: real
  income_y :: real
  expense_amount :: real
  category :: "string option"
  priority_flag :: "string option"
  currency :: "string option"
  category_enc :: "int option"
  priority_enc :: "int option"
  cutoff_rate :: real
  total_expenses :: real
  expense_ratio :: real
  risk_flag :: int

record response =
  recommend_flag :: int

subsection \<open>The predict handler\<close>

definition detail_strings :: string where
  "detail_strings = ''Provide 'category' and 'priority_flag' as strings.''"

definition detail_numbers :: string where
  "detail_numbers =
     ''Model bundle has no encoders. Provide numeric 'category_enc' and 'priority_enc', '' @
     ''or re-export a bundle with encoders.''"

text \<open>
  The first stage of \<^verbatim>\<open>predict\<close>: the two integer codes, from the encoders when the
  bundle has them, from the request otherwise. The statements run in the source's order,
  so the first that raises decides the exception.
\<close>

definition resolve_encodings :: "model_bundle \<Rightarrow> ExpenseInput \<Rightarrow> error + (int \<times> int)" where
  "resolve_encodings b expense =
     (case encoders b of
        Some encs \<Rightarrow>
          (case (category expense, priority_flag expense) of
             (Some cat, Some pri) \<Rightarrow>
               (case getitem encs ''category'' of
                  Inl err \<Rightarrow> Inl err
                | Inr cat_encoder \<Rightarrow>
                    (case transform cat_encoder cat of
                       Inl err \<Rightarrow> Inl err
                     | Inr c \<Rightarrow>
                         (case getitem encs ''priority_flag'' of
                            Inl err \<Rightarrow> Inl err
                          | Inr pri_encoder \<Rightarrow>
                              (case transform pri_encoder pri of
                                 Inl err \<Rightarrow> Inl err
                               | Inr p \<Rightarrow> Inr (c, p)))))
           | _ \<Rightarrow> Inl (HTTPException 400 detail_strings))
      | None \<Rightarrow>
          (case (category_enc expense, priority_enc expense) of
             (Some c, Some p) \<Rightarrow> Inr (c, p)
           | _ \<Rightarrow> Inl (HTTPException 400 detail_numbers)))"

text \<open>
  The dict \<^verbatim>\<open>row\<close>, in the order its literal lists the keys, which is the column order
  of \<^verbatim>\<open>pd.DataFrame([row])\<close>.
\<close>

definition row :: "ExpenseInput \<Rightarrow> int \<Rightarrow> int \<Rightarrow> frame" where
  "row expense c p =
     [(''income_x'', CFloat (income_x expense)),
      (''income_y'', CFloat (income_y expense)),
      (''expense_amount'', CFloat (expense_amount expense)),
      (''category_enc'', CInt c),
      (''priority_enc'', CInt p),
      (''cutoff_rate'', CFloat (cutoff_rate expense)),
      (''total_expenses'', CFloat (total_expenses expense)),
      (''expense_ratio'', CFloat (expense_ratio expense)),
      (''risk_flag'', CInt (risk_flag expense))]"

text \<open>\<^verbatim>\<open>Index.unique()\<close>: each element once, at its first place.\<close>

fun unique :: "'a list \<Rightarrow> 'a list" where
  "unique [] = []"
| "unique (x # xs) = x # unique (filter (\<lambda>y. y \<noteq> x) xs)"

text \<open>
  \<^verbatim>\<open>df[names]\<close> with a list of names: the named columns in the order of the list, a
  repeated name giving a repeated column. When a name is not a column of \<open>df\<close>, pandas
  raises \<^verbatim>\<open>KeyError\<close>, with one of two messages: \<^verbatim>\<open>None of [names] are in the [columns]\<close>
  when no name is a column, and \<^verbatim>\<open>[not_found] not in index\<close> otherwise, where
  \<^verbatim>\<open>not_found\<close> holds each missing name once. The error carries the names its message
  lists.
\<close>

definition select_columns :: "frame \<Rightarrow> string list \<Rightarrow> error + frame" where
  "select_columns df names =
     (let missing = filter (\<lambda>n. map_of df n = None) names
      in if missing \<noteq> [] then
           (if length missing = length names then Inl (KeyError names)
            else Inl (KeyError (unique missing)))
         else Inr (map (\<lambda>n. (n, the (map_of df n))) names))"

text \<open>
  \<^verbatim>\<open>int(model.predict(X)[0])\<close>, with the tables the estimator was called on. A bundle
  without a model has \<^verbatim>\<open>model = None\<close>, and the attribute lookup raises before any call.
\<close>

definition invoke_model :: "estimator option \<Rightarrow> frame \<Rightarrow> (error + int) \<times> frame list" where
  "invoke_model mo X =
     (case mo of
        None \<Rightarrow> (Inl AttributeError, [])
      | Some m \<Rightarrow>
          (case m X of
             Inl err \<Rightarrow> (Inl err, [X])
           | Inr [] \<Rightarrow> (Inl IndexError, [X])
           | Inr (y # ys) \<Rightarrow> (Inr (py_int y), [X])))"

definition predict :: "model_bundle \<Rightarrow> ExpenseInput \<Rightarrow> (error + response) \<times> frame list" where
  "predict b expense =
     (case resolve_encodings b expense of
        Inl err \<Rightarrow> (Inl err, [])
      | Inr (c, p) \<Rightarrow>
          (case select_columns (row expense c p) (feature_order b) of
             Inl err \<Rightarrow> (Inl err, [])
           | Inr X \<Rightarrow>
               (case invoke_model (model b) X of
                  (Inl err, calls) \<Rightarrow> (Inl err, calls)
                | (Inr pred, calls) \<Rightarrow> (Inr \<lparr>recommend_flag = pred\<rparr>, calls))))"

text \<open>The two things a caller observes.\<close>

definition result_of :: "(error + response) \<times> frame list \<Rightarrow> error + response" where
  "result_of out = fst out"

definition model_calls :: "(error + response) \<times> frame list \<Rightarrow> frame list" where
  "model_calls out = snd out"

subsection \<open>Concrete bundles and requests\<close>

text \<open>
  The request of the specification's scenario, with labels, and the same request with
  the two integer codes instead.
\<close>

definition scenario_request :: ExpenseInput where
  "scenario_request =
     \<lparr>income_x = 5000, income_y = 2000, expense_amount = 300,
      category = Some ''Food'', priority_flag = Some ''High'', currency = None,
      category_enc = None, priority_enc = None,
      cutoff_rate = 3 / 10, total_expenses = 1200, expense_ratio = 24 / 100,
      risk_flag = 0\<rparr>"

definition codes_request :: ExpenseInput where
  "codes_request =
     \<lparr>income_x = 5000, income_y = 2000, expense_amount = 300,
      category = None, priority_flag = None, currency = None,
      category_enc = Some 2, priority_enc = Some 1,
      cutoff_rate = 3 / 10, total_expenses = 1200, expense_ratio = 24 / 100,
      risk_flag = 0\<rparr>"

definition scenario_table :: frame where
  "scenario_table =
     [(''income_x'', CFloat 5000), (''income_y'', CFloat 2000),
      (''expense_amount'', CFloat 300), (''category_enc'', CInt 2),
      (''priority_enc'', CInt 1), (''cutoff_rate'', CFloat (3 / 10)),
      (''total_expenses'', CFloat 1200), (''expense_ratio'', CFloat (24 / 100)),
      (''risk_flag'', CInt 0)]"

text \<open>Encoders fitted on three labels each; the codes number the sorted labels.\<close>

definition category_encoder :: encoder where
  "category_encoder = [''Bills'' \<mapsto> 0, ''Entertainment'' \<mapsto> 1, ''Food'' \<mapsto> 2]"

definition priority_encoder :: encoder where
  "priority_encoder = [''Critical'' \<mapsto> 0, ''High'' \<mapsto> 1, ''Low'' \<mapsto> 2]"

definition scenario_encoders :: "string \<rightharpoonup> encoder" where
  "scenario_encoders =
     [''category'' \<mapsto> category_encoder, ''priority_flag'' \<mapsto> priority_encoder]"

text \<open>An estimator that predicts the same label for every table.\<close>

definition constant_estimator :: "label \<Rightarrow> estimator" where
  "constant_estimator y X = Inr [y]"

definition labels_bundle :: "estimator \<Rightarrow> string list \<Rightarrow> model_bundle" where
  "labels_bundle m names =
     \<lparr>model = Some m, encoders = Some scenario_encoders, feature_order = names\<rparr>"

definition codes_bundle :: "estimator \<Rightarrow> string list \<Rightarrow> model_bundle" where
  "codes_bundle m names = \<lparr>model = Some m, encoders = None, feature_order = names\<rparr>"

section \<open>Properties\<close>

subsection \<open>The stages of the handler\<close>

lemma row_columns: "map fst (row expense c p) = DEFAULT_FEATURE_ORDER"
  by (simp add: row_def DEFAULT_FEATURE_ORDER_def)

lemma select_columns_columns:
  "select_columns df names = Inr X \<Longrightarrow> map fst X = names"
  by (auto simp: select_columns_def Let_def comp_def split: if_splits)

lemma length_filter_all:
  "length (filter P xs) = length xs \<longleftrightarrow> (\<forall>x \<in> set xs. P x)"
proof (induction xs)
  case Nil
  show ?case by simp
next
  case (Cons x xs)
  have "length (filter P xs) \<noteq> Suc (length xs)"
    using length_filter_le [of P xs] by linarith
  with Cons show ?case by auto
qed

lemma select_columns_values:
  assumes "select_columns df names = Inr X"
  shows "set X \<subseteq> set df"
proof
  fix nv assume "nv \<in> set X"
  from assms have all: "\<forall>n \<in> set names. map_of df n \<noteq> None"
    and X: "X = map (\<lambda>n. (n, the (map_of df n))) names"
    by (auto simp: select_columns_def Let_def filter_empty_conv split: if_splits)
  from \<open>nv \<in> set X\<close> X obtain n where n: "n \<in> set names" "nv = (n, the (map_of df n))"
    by auto
  with all obtain v where "map_of df n = Some v" by auto
  with n show "nv \<in> set df" by (simp add: map_of_SomeD)
qed

lemma row_distinct: "distinct (map fst (row expense c p))"
  by (simp add: row_def)

text \<open>
  The names the \<^verbatim>\<open>KeyError\<close> of a selection from the nine columns carries.
\<close>

lemma select_columns_row:
  "select_columns (row expense c p) names =
     (if set names \<subseteq> set DEFAULT_FEATURE_ORDER
      then Inr (map (\<lambda>n. (n, the (map_of (row expense c p) n))) names)
      else if set names \<inter> set DEFAULT_FEATURE_ORDER = {} then Inl (KeyError names)
      else Inl (KeyError (unique (filter (\<lambda>n. n \<notin> set DEFAULT_FEATURE_ORDER) names))))"
proof -
  have dom: "map_of (row expense c p) n = None \<longleftrightarrow> n \<notin> set DEFAULT_FEATURE_ORDER" for n
    using row_columns [of expense c p] by (metis map_of_eq_None_iff set_map)
  have f: "filter (\<lambda>n. map_of (row expense c p) n = None) names
          = filter (\<lambda>n. n \<notin> set DEFAULT_FEATURE_ORDER) names"
    by (simp add: dom)
  have e: "filter (\<lambda>n. n \<notin> set DEFAULT_FEATURE_ORDER) names = []
          \<longleftrightarrow> set names \<subseteq> set DEFAULT_FEATURE_ORDER"
    by (auto simp: filter_empty_conv)
  have a: "length (filter (\<lambda>n. n \<notin> set DEFAULT_FEATURE_ORDER) names) = length names
          \<longleftrightarrow> set names \<inter> set DEFAULT_FEATURE_ORDER = {}"
    by (auto simp: length_filter_all)
  show ?thesis
    unfolding select_columns_def Let_def f
    using e a by auto
qed

lemma select_columns_key_order:
  assumes "distinct (map fst df)" "distinct (map fst df')" "set df' = set df"
  shows "select_columns df' names = select_columns df names"
proof -
  from assms have "map_of df' = map_of df"
    by (simp add: map_of_inject_set)
  then show ?thesis
    by (simp only: select_columns_def)
qed

lemma invoke_model_snd:
  "snd (invoke_model mo X) = (if mo = None then [] else [X])"
  by (simp add: invoke_model_def split: option.splits sum.splits list.splits)

lemma invoke_model_fst_Inr:
  "fst (invoke_model mo X) = Inr i \<Longrightarrow> mo \<noteq> None"
  by (cases mo) (auto simp: invoke_model_def)

lemma predict_resolve_error:
  "resolve_encodings b expense = Inl err \<Longrightarrow> predict b expense = (Inl err, [])"
  by (simp add: predict_def)

lemma predict_select_error:
  "resolve_encodings b expense = Inr (c, p) \<Longrightarrow>
   select_columns (row expense c p) (feature_order b) = Inl err \<Longrightarrow>
   predict b expense = (Inl err, [])"
  by (simp add: predict_def)

lemma predict_invoke:
  "resolve_encodings b expense = Inr (c, p) \<Longrightarrow>
   select_columns (row expense c p) (feature_order b) = Inr X \<Longrightarrow>
   predict b expense =
     (case fst (invoke_model (model b) X) of
        Inl err \<Rightarrow> Inl err
      | Inr pred \<Rightarrow> Inr \<lparr>recommend_flag = pred\<rparr>,
      snd (invoke_model (model b) X))"
  by (simp add: predict_def split: prod.splits sum.splits)

lemma predict_from_stages:
  "predict b expense =
     (case resolve_encodings b expense of
        Inl err \<Rightarrow> (Inl err, [])
      | Inr cp \<Rightarrow>
          (case select_columns (row expense (fst cp) (snd cp)) (feature_order b) of
             Inl err \<Rightarrow> (Inl err, [])
           | Inr X \<Rightarrow>
               (case fst (invoke_model (model b) X) of
                  Inl err \<Rightarrow> Inl err
                | Inr pred \<Rightarrow> Inr \<lparr>recommend_flag = pred\<rparr>,
                snd (invoke_model (model b) X))))"
  by (simp add: predict_def split: sum.splits prod.splits)

lemma resolve_encodings_no_strings:
  "encoders b = Some encs \<Longrightarrow> category expense = None \<or> priority_flag expense = None \<Longrightarrow>
   resolve_encodings b expense = Inl (HTTPException 400 detail_strings)"
  by (auto simp: resolve_encodings_def split: option.splits)

lemma resolve_encodings_no_codes:
  "encoders b = None \<Longrightarrow> category_enc expense = None \<or> priority_enc expense = None \<Longrightarrow>
   resolve_encodings b expense = Inl (HTTPException 400 detail_numbers)"
  by (auto simp: resolve_encodings_def split: option.splits)

lemma resolve_encodings_labels:
  assumes "encoders b = Some encs"
    and "encs ''category'' = Some cat_encoder" and "encs ''priority_flag'' = Some pri_encoder"
    and "category expense = Some cat" and "priority_flag expense = Some pri"
    and "cat_encoder cat = Some c" and "pri_encoder pri = Some p"
  shows "resolve_encodings b expense = Inr (c, p)"
  using assms by (simp add: resolve_encodings_def getitem_def transform_def)

lemma resolve_encodings_given_codes:
  assumes "encoders b = None" and "category_enc expense = Some c"
    and "priority_enc expense = Some p"
  shows "resolve_encodings b expense = Inr (c, p)"
  using assms by (simp add: resolve_encodings_def)

lemma detail_strings_names:
  "sublist ''category'' detail_strings \<and> sublist ''priority_flag'' detail_strings"
  by (simp add: detail_strings_def sublist_Cons_right)

lemma detail_numbers_names:
  "sublist ''category_enc'' detail_numbers \<and> sublist ''priority_enc'' detail_numbers"
  by (simp add: detail_numbers_def sublist_Cons_right)

lemma resolve_encodings_currency:
  "resolve_encodings b (expense\<lparr>currency := cur\<rparr>) = resolve_encodings b expense"
  by (cases "encoders b") (simp_all add: resolve_encodings_def)

lemma row_currency: "row (expense\<lparr>currency := cur\<rparr>) c p = row expense c p"
  by (simp add: row_def)

lemma resolve_encodings_codes:
  "encoders b = Some encs \<Longrightarrow>
   resolve_encodings b (expense\<lparr>category_enc := ce, priority_enc := pe\<rparr>)
     = resolve_encodings b expense"
  by (simp add: resolve_encodings_def)

lemma row_codes:
  "row (expense\<lparr>category_enc := ce, priority_enc := pe\<rparr>) c p = row expense c p"
  by (simp add: row_def)

lemma predict_calls:
  "X \<in> set (snd (predict b expense)) \<Longrightarrow> map fst X = feature_order b"
proof (cases "resolve_encodings b expense")
  case (Inl err)
  assume "X \<in> set (snd (predict b expense))"
  with Inl show ?thesis by (simp add: predict_resolve_error)
next
  case (Inr cp)
  assume call: "X \<in> set (snd (predict b expense))"
  obtain c p where cp: "resolve_encodings b expense = Inr (c, p)"
    using Inr by (cases cp) simp
  show ?thesis
  proof (cases "select_columns (row expense c p) (feature_order b)")
    case (Inl err)
    with cp call show ?thesis by (simp add: predict_select_error)
  next
    case (Inr X')
    with cp call have "X = X'"
      by (simp add: predict_invoke invoke_model_snd split: if_splits)
    with Inr show ?thesis by (simp add: select_columns_columns)
  qed
qed

lemma predict_Inr_call:
  assumes "fst (predict b expense) = Inr r"
  shows "\<exists>X. snd (predict b expense) = [X] \<and> map fst X = feature_order b"
proof (cases "resolve_encodings b expense")
  case (Inl err)
  with assms show ?thesis by (simp add: predict_resolve_error)
next
  case (Inr cp)
  obtain c p where cp: "resolve_encodings b expense = Inr (c, p)"
    using Inr by (cases cp) simp
  show ?thesis
  proof (cases "select_columns (row expense c p) (feature_order b)")
    case (Inl err)
    with cp assms show ?thesis by (simp add: predict_select_error)
  next
    case (Inr X)
    with cp assms obtain i where "fst (invoke_model (model b) X) = Inr i"
      by (auto simp: predict_invoke split: sum.splits)
    then have "model b \<noteq> None" by (rule invoke_model_fst_Inr)
    with cp Inr have "snd (predict b expense) = [X]"
      by (simp add: predict_invoke invoke_model_snd)
    with Inr show ?thesis by (simp add: select_columns_columns)
  qed
qed

subsection \<open>The concrete bundles and requests, evaluated\<close>

lemma labels_bundle_sel [simp]:
  "model (labels_bundle m names) = Some m"
  "encoders (labels_bundle m names) = Some scenario_encoders"
  "feature_order (labels_bundle m names) = names"
  by (simp_all add: labels_bundle_def)

lemma codes_bundle_sel [simp]:
  "model (codes_bundle m names) = Some m"
  "encoders (codes_bundle m names) = None"
  "feature_order (codes_bundle m names) = names"
  by (simp_all add: codes_bundle_def)

lemma scenario_request_sel:
  "category scenario_request = Some ''Food''"
  "priority_flag scenario_request = Some ''High''"
  by (simp_all add: scenario_request_def)

lemma resolve_scenario:
  "resolve_encodings (labels_bundle m names) scenario_request = Inr (2, 1)"
  by (simp add: resolve_encodings_def scenario_request_def getitem_def
        transform_def scenario_encoders_def category_encoder_def priority_encoder_def)

lemma resolve_codes:
  "resolve_encodings (codes_bundle m names) codes_request = Inr (2, 1)"
  by (simp add: resolve_encodings_def codes_request_def)

lemma row_scenario: "row scenario_request 2 1 = scenario_table"
  by (simp add: row_def scenario_request_def scenario_table_def)

lemma row_codes_request: "row codes_request 2 1 = scenario_table"
  by (simp add: row_def codes_request_def scenario_table_def)

lemma select_scenario: "select_columns scenario_table DEFAULT_FEATURE_ORDER = Inr scenario_table"
  by (simp add: select_columns_def scenario_table_def DEFAULT_FEATURE_ORDER_def)

lemma invoke_constant:
  "invoke_model (Some (constant_estimator y)) X = (Inr (py_int y), [X])"
  by (simp add: invoke_model_def constant_estimator_def)

lemma predict_scenario_constant:
  "predict (labels_bundle (constant_estimator y) DEFAULT_FEATURE_ORDER) scenario_request
     = (Inr \<lparr>recommend_flag = py_int y\<rparr>, [scenario_table])"
proof -
  have "select_columns (row scenario_request 2 1)
          (feature_order (labels_bundle (constant_estimator y) DEFAULT_FEATURE_ORDER))
        = Inr scenario_table"
    by (simp add: row_scenario select_scenario)
  from predict_invoke [OF resolve_scenario this] show ?thesis
    by (simp add: invoke_constant)
qed

subsection \<open>Missing categorical inputs\<close>

text \<open>
  C1. When the bundle has encoders and the request lacks \<^verbatim>\<open>category\<close> or
  \<^verbatim>\<open>priority_flag\<close>, the handler raises \<^verbatim>\<open>HTTPException\<close> with status 400 and the
  estimator is never called; when the bundle has no encoders and the request lacks
  \<^verbatim>\<open>category_enc\<close> or \<^verbatim>\<open>priority_enc\<close>, likewise. Each mode has one fixed message,
  and it names both fields of its mode, so it names every field that is missing.
\<close>

theorem missing_categorical_inputs_rejected:
  "(encoders b \<noteq> None \<and> (category expense = None \<or> priority_flag expense = None) \<longrightarrow>
      result_of (predict b expense) = Inl (HTTPException 400 detail_strings)
      \<and> model_calls (predict b expense) = [])
   \<and> (encoders b = None \<and> (category_enc expense = None \<or> priority_enc expense = None) \<longrightarrow>
      result_of (predict b expense) = Inl (HTTPException 400 detail_numbers)
      \<and> model_calls (predict b expense) = [])
   \<and> sublist ''category'' detail_strings \<and> sublist ''priority_flag'' detail_strings
   \<and> sublist ''category_enc'' detail_numbers \<and> sublist ''priority_enc'' detail_numbers"
proof -
  have "result_of (predict b expense) = Inl (HTTPException 400 detail_strings)
        \<and> model_calls (predict b expense) = []"
    if "encoders b \<noteq> None" "category expense = None \<or> priority_flag expense = None"
  proof -
    from that(1) obtain encs where "encoders b = Some encs" by auto
    then have "resolve_encodings b expense = Inl (HTTPException 400 detail_strings)"
      using that(2) by (rule resolve_encodings_no_strings)
    then show ?thesis
      by (simp add: predict_resolve_error result_of_def model_calls_def)
  qed
  moreover have "result_of (predict b expense) = Inl (HTTPException 400 detail_numbers)
        \<and> model_calls (predict b expense) = []"
    if "encoders b = None" "category_enc expense = None \<or> priority_enc expense = None"
    using resolve_encodings_no_codes [OF that]
    by (simp add: predict_resolve_error result_of_def model_calls_def)
  ultimately show ?thesis
    using detail_strings_names detail_numbers_names by blast
qed

text \<open>C1, at a request without \<^verbatim>\<open>category\<close> and at one without \<^verbatim>\<open>priority_enc\<close>.\<close>

theorem missing_categorical_inputs_rejected_witness:
  "result_of (predict (labels_bundle (constant_estimator (IntLabel 1)) DEFAULT_FEATURE_ORDER)
      (scenario_request\<lparr>category := None\<rparr>)) = Inl (HTTPException 400 detail_strings)
   \<and> model_calls (predict (labels_bundle (constant_estimator (IntLabel 1)) DEFAULT_FEATURE_ORDER)
      (scenario_request\<lparr>category := None\<rparr>)) = []
   \<and> result_of (predict (codes_bundle (constant_estimator (IntLabel 1)) DEFAULT_FEATURE_ORDER)
      (codes_request\<lparr>priority_enc := None\<rparr>)) = Inl (HTTPException 400 detail_numbers)
   \<and> model_calls (predict (codes_bundle (constant_estimator (IntLabel 1)) DEFAULT_FEATURE_ORDER)
      (codes_request\<lparr>priority_enc := None\<rparr>)) = []"
  using missing_categorical_inputs_rejected
          [of "labels_bundle (constant_estimator (IntLabel 1)) DEFAULT_FEATURE_ORDER"
              "scenario_request\<lparr>category := None\<rparr>"]
        missing_categorical_inputs_rejected
          [of "codes_bundle (constant_estimator (IntLabel 1)) DEFAULT_FEATURE_ORDER"
              "codes_request\<lparr>priority_enc := None\<rparr>"]
  by (simp add: labels_bundle_def codes_bundle_def scenario_request_def codes_request_def)

subsection \<open>The columns of the table handed to the estimator\<close>

text \<open>
  C2. Every table the handler hands to the estimator has exactly the columns of the
  bundle's \<^verbatim>\<open>feature_order\<close>, in that order, and each column holds the value that
  \<^verbatim>\<open>row\<close> has under that column's name: every (name, value) pair of the table is a pair
  of \<^verbatim>\<open>row\<close>, whose nine names are distinct. The table is produced: whenever the two
  codes resolve, \<^verbatim>\<open>feature_order\<close> names only columns of \<^verbatim>\<open>row\<close> and the bundle has a
  model, the estimator is called exactly once, on that table; and a request that is
  answered has made that one call. The handler receives the validated \<^verbatim>\<open>ExpenseInput\<close>
  object and reads its fields by name, so the order of the keys in the request body is
  not part of its input; the one order the handler creates itself, that of the keys of
  \<^verbatim>\<open>row\<close>, does not reach the table either (\<open>select_columns_key_order\<close>).
\<close>

theorem model_input_columns:
  "(X \<in> set (model_calls (predict b expense)) \<longrightarrow>
      columns X = feature_order b
      \<and> (\<exists>c p. resolve_encodings b expense = Inr (c, p) \<and> set X \<subseteq> set (row expense c p)))
   \<and> (resolve_encodings b expense = Inr (c, p)
        \<and> set (feature_order b) \<subseteq> set DEFAULT_FEATURE_ORDER \<and> model b \<noteq> None \<longrightarrow>
      (\<exists>T. model_calls (predict b expense) = [T] \<and> columns T = feature_order b
           \<and> set T \<subseteq> set (row expense c p)))
   \<and> (result_of (predict b expense) = Inr r \<longrightarrow>
      (\<exists>T. model_calls (predict b expense) = [T] \<and> columns T = feature_order b))
   \<and> distinct (map fst (row expense c p))"
proof -
  have called: "columns X = feature_order b
      \<and> (\<exists>c p. resolve_encodings b expense = Inr (c, p) \<and> set X \<subseteq> set (row expense c p))"
    if call: "X \<in> set (model_calls (predict b expense))"
  proof (cases "resolve_encodings b expense")
    case (Inl err)
    with call show ?thesis by (simp add: predict_resolve_error model_calls_def)
  next
    case (Inr cp)
    obtain c' p' where cp: "resolve_encodings b expense = Inr (c', p')"
      using Inr by (cases cp) simp
    show ?thesis
    proof (cases "select_columns (row expense c' p') (feature_order b)")
      case (Inl err)
      with cp call show ?thesis by (simp add: predict_select_error model_calls_def)
    next
      case (Inr X')
      with cp call have "X = X'"
        by (simp add: predict_invoke invoke_model_snd model_calls_def split: if_splits)
      with Inr cp show ?thesis
        using select_columns_values [OF Inr]
        by (simp add: columns_def select_columns_columns)
    qed
  qed
  have produced: "\<exists>T. model_calls (predict b expense) = [T] \<and> columns T = feature_order b
           \<and> set T \<subseteq> set (row expense c p)"
    if r: "resolve_encodings b expense = Inr (c, p)"
      and sub: "set (feature_order b) \<subseteq> set DEFAULT_FEATURE_ORDER" and m: "model b \<noteq> None"
  proof -
    from sub obtain T where T: "select_columns (row expense c p) (feature_order b) = Inr T"
      by (simp add: select_columns_row)
    from predict_invoke [OF r T] m have "model_calls (predict b expense) = [T]"
      by (simp add: model_calls_def invoke_model_snd)
    with T show ?thesis
      using select_columns_values [OF T] by (simp add: columns_def select_columns_columns)
  qed
  have answered: "\<exists>T. model_calls (predict b expense) = [T] \<and> columns T = feature_order b"
    if "result_of (predict b expense) = Inr r"
    using predict_Inr_call [of b expense r] that
    by (simp add: result_of_def model_calls_def columns_def)
  from called produced answered row_distinct show ?thesis by blast
qed

text \<open>
  C2, at the scenario request with the nine columns in the reverse of the order in which
  \<^verbatim>\<open>row\<close> lists them: one call, on the table with the columns reversed and each value
  still under its own name.
\<close>

theorem model_input_columns_witness:
  "model_calls (predict (labels_bundle (constant_estimator (IntLabel 1))
       (rev DEFAULT_FEATURE_ORDER)) scenario_request)
     = [[(''risk_flag'', CInt 0), (''expense_ratio'', CFloat (24 / 100)),
         (''total_expenses'', CFloat 1200), (''cutoff_rate'', CFloat (3 / 10)),
         (''priority_enc'', CInt 1), (''category_enc'', CInt 2),
         (''expense_amount'', CFloat 300), (''income_y'', CFloat 2000),
         (''income_x'', CFloat 5000)]]
   \<and> result_of (predict (labels_bundle (constant_estimator (IntLabel 1))
       (rev DEFAULT_FEATURE_ORDER)) scenario_request) = Inr \<lparr>recommend_flag = 1\<rparr>"
proof -
  let ?b = "labels_bundle (constant_estimator (IntLabel 1)) (rev DEFAULT_FEATURE_ORDER)"
  let ?T = "[(''risk_flag'', CInt 0), (''expense_ratio'', CFloat (24 / 100)),
         (''total_expenses'', CFloat 1200), (''cutoff_rate'', CFloat (3 / 10)),
         (''priority_enc'', CInt 1), (''category_enc'', CInt 2),
         (''expense_amount'', CFloat 300), (''income_y'', CFloat 2000),
         (''income_x'', CFloat 5000)]"
  have sel: "select_columns (row scenario_request 2 1) (feature_order ?b) = Inr ?T"
    by (simp add: row_scenario select_columns_def scenario_table_def DEFAULT_FEATURE_ORDER_def)
  have run: "predict ?b scenario_request = (Inr \<lparr>recommend_flag = 1\<rparr>, [?T])"
    using predict_invoke [OF resolve_scenario sel] by (simp add: invoke_constant)
  have "?T \<in> set (model_calls (predict ?b scenario_request))"
    by (simp add: run model_calls_def)
  with model_input_columns [of ?T ?b scenario_request 2 1 "\<lparr>recommend_flag = 1\<rparr>"]
  have "columns ?T = feature_order ?b"
    by blast
  with run show ?thesis
    by (simp add: model_calls_def result_of_def)
qed

subsection \<open>Labels through encoders against codes given directly\<close>

text \<open>
  C3. Take a bundle with encoders and a request whose two labels the encoders know, and
  the same model and feature order without encoders with a request that carries the codes
  of those labels. When the seven numeric fields agree, both calls of the handler give the
  same result and hand the estimator the same table.
\<close>

theorem encoder_consistency:
  assumes "encoders b1 = Some encs"
    and "encs ''category'' = Some cat_encoder" and "encs ''priority_flag'' = Some pri_encoder"
    and "category e1 = Some cat" and "priority_flag e1 = Some pri"
    and "cat_encoder cat = Some c" and "pri_encoder pri = Some p"
    and "encoders b2 = None" and "model b2 = model b1"
    and "feature_order b2 = feature_order b1"
    and "category_enc e2 = Some c" and "priority_enc e2 = Some p"
    and "income_x e2 = income_x e1" and "income_y e2 = income_y e1"
    and "expense_amount e2 = expense_amount e1" and "cutoff_rate e2 = cutoff_rate e1"
    and "total_expenses e2 = total_expenses e1" and "expense_ratio e2 = expense_ratio e1"
    and "risk_flag e2 = risk_flag e1"
  shows "predict b1 e1 = predict b2 e2"
proof -
  have r1: "resolve_encodings b1 e1 = Inr (c, p)"
    using assms(1-7) by (rule resolve_encodings_labels)
  have r2: "resolve_encodings b2 e2 = Inr (c, p)"
    using assms(8,11,12) by (rule resolve_encodings_given_codes)
  have "row e2 c p = row e1 c p"
    using assms(13-19) by (simp add: row_def)
  with r1 r2 assms(9,10) show ?thesis
    by (simp add: predict_from_stages cong: sum.case_cong)
qed

text \<open>C3, at the scenario: ``Food'' and ``High'' against the codes 2 and 1.\<close>

theorem encoder_consistency_witness:
  "predict (labels_bundle (constant_estimator (IntLabel 1)) DEFAULT_FEATURE_ORDER) scenario_request
   = predict (codes_bundle (constant_estimator (IntLabel 1)) DEFAULT_FEATURE_ORDER) codes_request"
  by (rule encoder_consistency
        [where encs = scenario_encoders and cat_encoder = category_encoder
           and pri_encoder = priority_encoder and cat = "''Food''" and pri = "''High''"
           and c = 2 and p = 1])
     (simp_all add: scenario_encoders_def category_encoder_def priority_encoder_def
        scenario_request_def codes_request_def)

subsection \<open>The range of the recommend flag\<close>

text \<open>
  C4, as stated, fails: the handler returns \<^verbatim>\<open>int(model.predict(X)[0])\<close> unchecked.
  With known labels and an estimator that predicts class 2, the response carries 2.
\<close>

theorem three_class_counterexample:
  "result_of (predict (labels_bundle (constant_estimator (IntLabel 2)) DEFAULT_FEATURE_ORDER)
      scenario_request) = Inr \<lparr>recommend_flag = 2\<rparr>
   \<and> recommend_flag \<lparr>recommend_flag = 2\<rparr> \<notin> {0, 1}"
  by (simp add: predict_scenario_constant result_of_def)

text \<open>
  C4, amended. With encoders present that hold both keys and know both labels, a feature
  order that selects from the nine columns, and a model whose first prediction for the
  assembled table coerces to 0 or 1, the handler returns a response whose
  \<^verbatim>\<open>recommend_flag\<close> is that integer, hence in \<open>{0, 1}\<close>.
\<close>

theorem recommend_flag_from_model:
  assumes "encoders b = Some encs"
    and "encs ''category'' = Some cat_encoder" and "encs ''priority_flag'' = Some pri_encoder"
    and "category expense = Some cat" and "priority_flag expense = Some pri"
    and "cat_encoder cat = Some c" and "pri_encoder pri = Some p"
    and "select_columns (row expense c p) (feature_order b) = Inr X"
    and "model b = Some m" and "m X = Inr (y # ys)" and "py_int y \<in> {0, 1}"
  shows "\<exists>r. result_of (predict b expense) = Inr r \<and> recommend_flag r = py_int y
             \<and> recommend_flag r \<in> {0, 1}"
proof -
  have "resolve_encodings b expense = Inr (c, p)"
    using assms(1-7) by (rule resolve_encodings_labels)
  from predict_invoke [OF this assms(8)] assms(9-11) show ?thesis
    by (simp add: invoke_model_def result_of_def)
qed

text \<open>C4 amended, at the scenario with an estimator that predicts the float 1.0.\<close>

theorem recommend_flag_from_model_witness:
  "result_of (predict (labels_bundle (constant_estimator (FloatLabel 1)) DEFAULT_FEATURE_ORDER)
      scenario_request) = Inr \<lparr>recommend_flag = 1\<rparr>"
proof -
  have "\<exists>r. result_of (predict
            (labels_bundle (constant_estimator (FloatLabel 1)) DEFAULT_FEATURE_ORDER)
            scenario_request) = Inr r
          \<and> recommend_flag r = py_int (FloatLabel 1) \<and> recommend_flag r \<in> {0, 1}"
    by (rule recommend_flag_from_model
          [where encs = scenario_encoders and cat_encoder = category_encoder
             and pri_encoder = priority_encoder and cat = "''Food''" and pri = "''High''"
             and c = 2 and p = 1 and X = scenario_table
             and m = "constant_estimator (FloatLabel 1)" and ys = "[]"])
       (simp_all add: scenario_encoders_def category_encoder_def priority_encoder_def
          scenario_request_sel row_scenario select_scenario constant_estimator_def)
  then show ?thesis by auto
qed

subsection \<open>A feature order that differs from the nine columns\<close>

text \<open>
  C5, as stated, fails: \<^verbatim>\<open>df[feature_order]\<close> selects. A feature order of two of the
  nine columns, in another order, differs from the assembled columns as a sequence and as
  a set, and the handler goes on to inference with a table of those two columns.
\<close>

theorem subset_order_counterexample:
  "feature_order (codes_bundle (constant_estimator (IntLabel 1)) [''risk_flag'', ''income_x''])
     \<noteq> DEFAULT_FEATURE_ORDER
   \<and> \<not> set DEFAULT_FEATURE_ORDER
         \<subseteq> set (feature_order
               (codes_bundle (constant_estimator (IntLabel 1)) [''risk_flag'', ''income_x'']))
   \<and> predict (codes_bundle (constant_estimator (IntLabel 1)) [''risk_flag'', ''income_x''])
       codes_request
     = (Inr \<lparr>recommend_flag = 1\<rparr>, [[(''risk_flag'', CInt 0), (''income_x'', CFloat 5000)]])"
proof -
  have "select_columns (row codes_request 2 1)
          (feature_order (codes_bundle (constant_estimator (IntLabel 1))
             [''risk_flag'', ''income_x'']))
        = Inr [(''risk_flag'', CInt 0), (''income_x'', CFloat 5000)]"
    by (simp add: row_codes_request select_columns_def scenario_table_def)
  from predict_invoke [OF resolve_codes this] show ?thesis
    by (simp add: invoke_constant DEFAULT_FEATURE_ORDER_def)
qed

text \<open>
  C5, amended. Once the two codes are resolved, assembly fails exactly when
  \<^verbatim>\<open>feature_order\<close> names a column that is not among the nine: the handler then raises
  \<^verbatim>\<open>KeyError\<close> (status 500, not an \<^verbatim>\<open>HTTPException\<close>) and the estimator is never
  called. The error lists the whole of \<^verbatim>\<open>feature_order\<close> when none of its names is a
  column, and otherwise each unknown name once. A feature order within the nine columns,
  whatever its order or length, is assembled into a table with those columns, each
  holding the value \<^verbatim>\<open>row\<close> has under its name, and that table is what a present model
  is called on.
\<close>

theorem column_contract:
  assumes "resolve_encodings b expense = Inr (c, p)"
  shows "(\<not> set (feature_order b) \<subseteq> set DEFAULT_FEATURE_ORDER \<longrightarrow>
            (\<exists>err. result_of (predict b expense) = Inl err
               \<and> err = KeyError
                    (if set (feature_order b) \<inter> set DEFAULT_FEATURE_ORDER = {}
                     then feature_order b
                     else unique (filter (\<lambda>n. n \<notin> set DEFAULT_FEATURE_ORDER)
                            (feature_order b)))
               \<and> status_code err = 500 \<and> \<not> is_HTTPException err)
            \<and> model_calls (predict b expense) = [])
       \<and> (set (feature_order b) \<subseteq> set DEFAULT_FEATURE_ORDER \<longrightarrow>
            (\<exists>X. select_columns (row expense c p) (feature_order b) = Inr X
                 \<and> columns X = feature_order b
                 \<and> set X \<subseteq> set (row expense c p)
                 \<and> model_calls (predict b expense) = (if model b = None then [] else [X])))"
proof (cases "set (feature_order b) \<subseteq> set DEFAULT_FEATURE_ORDER")
  case True
  then obtain X where X: "select_columns (row expense c p) (feature_order b) = Inr X"
    by (simp add: select_columns_row)
  from predict_invoke [OF assms X]
  have "model_calls (predict b expense) = (if model b = None then [] else [X])"
    by (simp add: model_calls_def invoke_model_snd)
  with X True show ?thesis
    using select_columns_values [OF X] by (simp add: columns_def select_columns_columns)
next
  case False
  let ?names = "if set (feature_order b) \<inter> set DEFAULT_FEATURE_ORDER = {}
                then feature_order b
                else unique (filter (\<lambda>n. n \<notin> set DEFAULT_FEATURE_ORDER) (feature_order b))"
  from False have "select_columns (row expense c p) (feature_order b) = Inl (KeyError ?names)"
    by (simp add: select_columns_row)
  from predict_select_error [OF assms this] False show ?thesis
    by (simp add: result_of_def model_calls_def)
qed

text \<open>
  C5 amended, at a feature order that repeats an unknown column, at one with no known
  column, and at one within the nine.
\<close>

theorem column_contract_witness:
  "predict (codes_bundle (constant_estimator (IntLabel 1))
       [''income_x'', ''currency_enc'', ''currency_enc'']) codes_request
     = (Inl (KeyError [''currency_enc'']), [])
   \<and> predict (codes_bundle (constant_estimator (IntLabel 1))
       [''currency_enc'', ''currency_enc'']) codes_request
     = (Inl (KeyError [''currency_enc'', ''currency_enc'']), [])
   \<and> model_calls (predict (codes_bundle (constant_estimator (IntLabel 1))
       [''risk_flag'', ''income_x'']) codes_request)
     = [[(''risk_flag'', CInt 0), (''income_x'', CFloat 5000)]]"
proof -
  have one: "predict (codes_bundle (constant_estimator (IntLabel 1))
       [''income_x'', ''currency_enc'', ''currency_enc'']) codes_request
     = (Inl (KeyError [''currency_enc'']), [])"
    using column_contract [OF resolve_codes, of "constant_estimator (IntLabel 1)"
            "[''income_x'', ''currency_enc'', ''currency_enc'']"]
    by (auto simp: DEFAULT_FEATURE_ORDER_def result_of_def model_calls_def prod_eq_iff)
  have none: "predict (codes_bundle (constant_estimator (IntLabel 1))
       [''currency_enc'', ''currency_enc'']) codes_request
     = (Inl (KeyError [''currency_enc'', ''currency_enc'']), [])"
    using column_contract [OF resolve_codes, of "constant_estimator (IntLabel 1)"
            "[''currency_enc'', ''currency_enc'']"]
    by (auto simp: DEFAULT_FEATURE_ORDER_def result_of_def model_calls_def prod_eq_iff)
  have within: "model_calls (predict (codes_bundle (constant_estimator (IntLabel 1))
       [''risk_flag'', ''income_x'']) codes_request)
     = [[(''risk_flag'', CInt 0), (''income_x'', CFloat 5000)]]"
    using column_contract [OF resolve_codes, of "constant_estimator (IntLabel 1)"
            "[''risk_flag'', ''income_x'']"]
    by (simp add: DEFAULT_FEATURE_ORDER_def select_columns_def row_codes_request
          scenario_table_def)
  from one none within show ?thesis by blast
qed

subsection \<open>Fields the handler does not read\<close>

text \<open>
  C6. When the bundle has encoders, \<^verbatim>\<open>category_enc\<close> and \<^verbatim>\<open>priority_enc\<close> of the
  request are not read: changing them changes neither the result nor the calls of the
  estimator.
\<close>

theorem encoded_fields_ignored:
  "encoders b \<noteq> None \<Longrightarrow>
   predict b (expense\<lparr>category_enc := ce, priority_enc := pe\<rparr>) = predict b expense"
  by (auto simp: predict_def resolve_encodings_codes row_codes cong: sum.case_cong)

text \<open>C6, at the scenario request with a stray \<^verbatim>\<open>category_enc\<close>.\<close>

theorem encoded_fields_ignored_witness:
  "encoders (labels_bundle (constant_estimator (IntLabel 1)) DEFAULT_FEATURE_ORDER) \<noteq> None
   \<and> predict (labels_bundle (constant_estimator (IntLabel 1)) DEFAULT_FEATURE_ORDER)
       (scenario_request\<lparr>category_enc := Some 7, priority_enc := None\<rparr>)
     = predict (labels_bundle (constant_estimator (IntLabel 1)) DEFAULT_FEATURE_ORDER)
         scenario_request"
  using encoded_fields_ignored
          [where b = "labels_bundle (constant_estimator (IntLabel 1)) DEFAULT_FEATURE_ORDER"
             and ce = "Some 7" and pe = None and expense = scenario_request]
  by (simp add: labels_bundle_def)

text \<open>
  C9. \<^verbatim>\<open>currency\<close> is not read: two requests that differ in it only, present or
  absent, give the same result and the same calls of the estimator.
\<close>

theorem currency_ignored:
  "predict b (expense\<lparr>currency := cur\<rparr>) = predict b expense"
  by (simp add: predict_def resolve_encodings_currency row_currency cong: sum.case_cong)

subsection \<open>The scenario of the specification\<close>

text \<open>
  C7. For the scenario request, against any bundle whose encoders map ``Food'' to 2 and
  ``High'' to 1 and whose feature order is the default one, the estimator is called once,
  on the table with the nine default columns and the values
  5000, 2000, 300, 2, 1, 0.3, 1200, 0.24, 0; the response carries the estimator's first
  prediction for that table, coerced by \<^verbatim>\<open>int\<close>, and what the estimator raises is raised.
\<close>

theorem scenario_feature_row:
  assumes "encoders b = Some encs"
    and "encs ''category'' = Some cat_encoder" and "encs ''priority_flag'' = Some pri_encoder"
    and "cat_encoder ''Food'' = Some 2" and "pri_encoder ''High'' = Some 1"
    and "feature_order b = DEFAULT_FEATURE_ORDER" and "model b = Some m"
  shows "model_calls (predict b scenario_request) = [scenario_table]
     \<and> columns scenario_table = DEFAULT_FEATURE_ORDER
     \<and> values_of scenario_table =
         [CFloat 5000, CFloat 2000, CFloat 300, CInt 2, CInt 1, CFloat (3 / 10),
          CFloat 1200, CFloat (24 / 100), CInt 0]
     \<and> result_of (predict b scenario_request) =
         (case m scenario_table of
            Inl err \<Rightarrow> Inl err
          | Inr [] \<Rightarrow> Inl IndexError
          | Inr (y # ys) \<Rightarrow> Inr \<lparr>recommend_flag = py_int y\<rparr>)"
proof -
  have r: "resolve_encodings b scenario_request = Inr (2, 1)"
    using assms(1-3) scenario_request_sel assms(4,5) by (rule resolve_encodings_labels)
  have s: "select_columns (row scenario_request 2 1) (feature_order b) = Inr scenario_table"
    using assms(6) by (simp add: row_scenario select_scenario)
  have calls: "model_calls (predict b scenario_request) = [scenario_table]"
    using predict_invoke [OF r s] assms(7) by (simp add: model_calls_def invoke_model_snd)
  have res: "result_of (predict b scenario_request) =
         (case m scenario_table of
            Inl err \<Rightarrow> Inl err
          | Inr [] \<Rightarrow> Inl IndexError
          | Inr (y # ys) \<Rightarrow> Inr \<lparr>recommend_flag = py_int y\<rparr>)"
    using predict_invoke [OF r s] assms(7)
    by (simp add: result_of_def invoke_model_def split: sum.splits list.splits)
  have cols: "columns scenario_table = DEFAULT_FEATURE_ORDER"
    by (simp add: columns_def scenario_table_def DEFAULT_FEATURE_ORDER_def)
  have vals: "values_of scenario_table =
         [CFloat 5000, CFloat 2000, CFloat 300, CInt 2, CInt 1, CFloat (3 / 10),
          CFloat 1200, CFloat (24 / 100), CInt 0]"
    by (simp add: values_of_def scenario_table_def)
  from calls cols vals res show ?thesis by blast
qed

text \<open>C7, with the encoders fitted on three labels each and an estimator that predicts 1.\<close>

theorem scenario_feature_row_witness:
  "model_calls (predict (labels_bundle (constant_estimator (IntLabel 1)) DEFAULT_FEATURE_ORDER)
      scenario_request) = [scenario_table]
   \<and> result_of (predict (labels_bundle (constant_estimator (IntLabel 1)) DEFAULT_FEATURE_ORDER)
      scenario_request) = Inr \<lparr>recommend_flag = 1\<rparr>"
proof -
  have e: "encoders (labels_bundle (constant_estimator (IntLabel 1)) DEFAULT_FEATURE_ORDER)
             = Some scenario_encoders"
    and c: "scenario_encoders ''category'' = Some category_encoder"
    and p: "scenario_encoders ''priority_flag'' = Some priority_encoder"
    and c2: "category_encoder ''Food'' = Some 2" and p1: "priority_encoder ''High'' = Some 1"
    and f: "feature_order (labels_bundle (constant_estimator (IntLabel 1)) DEFAULT_FEATURE_ORDER)
             = DEFAULT_FEATURE_ORDER"
    and m: "model (labels_bundle (constant_estimator (IntLabel 1)) DEFAULT_FEATURE_ORDER)
             = Some (constant_estimator (IntLabel 1))"
    by (simp_all add: scenario_encoders_def category_encoder_def priority_encoder_def)
  from scenario_feature_row [OF e c p c2 p1 f m] show ?thesis
    by (simp add: constant_estimator_def)
qed

subsection \<open>The loader's defaults\<close>

text \<open>
  C8. An artifact that is not a dict is the model itself, with no encoders and the
  default order of nine columns; a dict without the key \<^verbatim>\<open>feature_order\<close> gets the same
  default order.
\<close>

theorem load_bundle_defaults:
  "load_bundle (Estimator m) =
     \<lparr>model = Some m, encoders = None,
      feature_order =
        [''income_x'', ''income_y'', ''expense_amount'',
         ''category_enc'', ''priority_enc'', ''cutoff_rate'',
         ''total_expenses'', ''expense_ratio'', ''risk_flag'']\<rparr>
   \<and> feature_order (load_bundle (Dict (d\<lparr>get_feature_order := None\<rparr>))) =
        [''income_x'', ''income_y'', ''expense_amount'',
         ''category_enc'', ''priority_enc'', ''cutoff_rate'',
         ''total_expenses'', ''expense_ratio'', ''risk_flag'']"
  by (simp add: DEFAULT_FEATURE_ORDER_def)

subsection \<open>Encoders that lack a key\<close>

text \<open>
  C10. With encoders present and both labels in the request, the handler indexes the
  encoders at \<^verbatim>\<open>"category"\<close> and \<^verbatim>\<open>"priority_flag"\<close> unguarded. Encoders without
  \<^verbatim>\<open>"category"\<close> give \<^verbatim>\<open>KeyError\<close>; encoders with it, a known category label and no
  \<^verbatim>\<open>"priority_flag"\<close> give \<^verbatim>\<open>KeyError\<close> too. In every case where a key is absent the
  request fails with an exception that is not an \<^verbatim>\<open>HTTPException\<close>, so with status 500
  and not 400, before the estimator is called; and a request that is answered had both keys.
\<close>

theorem encoders_keys_unchecked:
  assumes "encoders b = Some encs"
    and "category expense = Some cat" and "priority_flag expense = Some pri"
  shows "(encs ''category'' = None \<longrightarrow>
            predict b expense = (Inl (KeyError [''category'']), []))
     \<and> (encs ''category'' = Some cat_encoder \<and> cat_encoder cat = Some c
          \<and> encs ''priority_flag'' = None \<longrightarrow>
            predict b expense = (Inl (KeyError [''priority_flag'']), []))
     \<and> (encs ''category'' = None \<or> encs ''priority_flag'' = None \<longrightarrow>
            (\<exists>err. predict b expense = (Inl err, []) \<and> \<not> is_HTTPException err
                   \<and> status_code err = 500))
     \<and> ((\<exists>r. result_of (predict b expense) = Inr r) \<longrightarrow>
            encs ''category'' \<noteq> None \<and> encs ''priority_flag'' \<noteq> None)"
proof -
  have no_cat: "resolve_encodings b expense = Inl (KeyError [''category''])"
    if "encs ''category'' = None"
    using assms that by (simp add: resolve_encodings_def getitem_def)
  have no_pri: "resolve_encodings b expense = Inl (KeyError [''priority_flag''])"
    if "encs ''category'' = Some ce" "ce cat = Some k" "encs ''priority_flag'' = None" for ce k
    using assms that by (simp add: resolve_encodings_def getitem_def transform_def)
  have unseen: "resolve_encodings b expense = Inl ValueError"
    if "encs ''category'' = Some ce" "ce cat = None" for ce
    using assms that by (simp add: resolve_encodings_def getitem_def transform_def)
  have lacks: "\<exists>err. resolve_encodings b expense = Inl err \<and> \<not> is_HTTPException err
                 \<and> status_code err = 500"
    if "encs ''category'' = None \<or> encs ''priority_flag'' = None"
  proof (cases "encs ''category''")
    case None
    then show ?thesis by (simp add: no_cat)
  next
    case (Some ce)
    with that have np: "encs ''priority_flag'' = None" by simp
    show ?thesis
    proof (cases "ce cat")
      case None
      with Some show ?thesis by (simp add: unseen)
    next
      case (Some k)
      with \<open>encs ''category'' = Some ce\<close> np show ?thesis by (simp add: no_pri)
    qed
  qed
  have "encs ''category'' \<noteq> None \<and> encs ''priority_flag'' \<noteq> None"
    if "\<exists>r. result_of (predict b expense) = Inr r"
  proof (rule ccontr)
    assume "\<not> (encs ''category'' \<noteq> None \<and> encs ''priority_flag'' \<noteq> None)"
    then have "encs ''category'' = None \<or> encs ''priority_flag'' = None" by blast
    from lacks [OF this] obtain err where "resolve_encodings b expense = Inl err" by blast
    then have "result_of (predict b expense) = Inl err"
      by (simp add: predict_resolve_error result_of_def)
    with that show False by simp
  qed
  then show ?thesis
    using no_cat no_pri lacks by (auto simp: predict_resolve_error)
qed

text \<open>C10, at encoders with no key, with one key, and with both.\<close>

theorem encoders_keys_unchecked_witness:
  "predict \<lparr>model = Some (constant_estimator (IntLabel 1)), encoders = Some Map.empty,
            feature_order = DEFAULT_FEATURE_ORDER\<rparr> scenario_request
     = (Inl (KeyError [''category'']), [])
   \<and> predict \<lparr>model = Some (constant_estimator (IntLabel 1)),
              encoders = Some [''category'' \<mapsto> category_encoder],
              feature_order = DEFAULT_FEATURE_ORDER\<rparr> scenario_request
     = (Inl (KeyError [''priority_flag'']), [])
   \<and> scenario_encoders ''category'' \<noteq> None \<and> scenario_encoders ''priority_flag'' \<noteq> None"
proof -
  have r: "\<exists>r. result_of (predict
              (labels_bundle (constant_estimator (IntLabel 1)) DEFAULT_FEATURE_ORDER)
              scenario_request) = Inr r"
    by (simp add: predict_scenario_constant result_of_def)
  have food: "category_encoder ''Food'' = Some 2"
    by (simp add: category_encoder_def)
  show ?thesis
    using encoders_keys_unchecked
            [where b = "\<lparr>model = Some (constant_estimator (IntLabel 1)),
                          encoders = Some Map.empty,
                          feature_order = DEFAULT_FEATURE_ORDER\<rparr>"
               and encs = Map.empty and expense = scenario_request
               and cat = "''Food''" and pri = "''High''"]
          encoders_keys_unchecked
            [where b = "\<lparr>model = Some (constant_estimator (IntLabel 1)),
                          encoders = Some [''category'' \<mapsto> category_encoder],
                          feature_order = DEFAULT_FEATURE_ORDER\<rparr>"
               and encs = "[''category'' \<mapsto> category_encoder]"
               and expense = scenario_request
               and cat = "''Food''" and pri = "''High''"
               and cat_encoder = category_encoder and c = 2]
          encoders_keys_unchecked
            [where b = "labels_bundle (constant_estimator (IntLabel 1)) DEFAULT_FEATURE_ORDER"
               and encs = scenario_encoders and expense = scenario_request
               and cat = "''Food''" and pri = "''High''"]
          r food
    by (simp add: scenario_request_sel)
qed

end
